theory Spec2Isabelle
  imports
    Complex_Main
    "HOL-Library.Sublist"
    "HOL-Library.Char_ord"
    "HOL-Library.List_Lexorder"
begin

section \<open>Data model of the sales dashboard\<close>

text \<open>
  The pipeline of \<^verbatim>\<open>dashboard_app.py\<close> works on a pandas DataFrame with eight
  required columns. A DataFrame is modelled as the ordered list of its column names
  together with the ordered list of its rows; a row is a record of the eight required
  cells. The cell types are parameters of the row record, because the dtype of a column
  changes along the pipeline:

  \<^item> text fields of the CSV file: every cell is a \<open>string\<close>;
  \<^item> the frame that \<^verbatim>\<open>pd.read_csv\<close> returns: the date column holds timestamps,
    \<^verbatim>\<open>NaT\<close> or (object dtype) unparsed text, a numeric column holds numbers,
    \<^verbatim>\<open>NaN\<close> or unparsed text, a categorical column (dtype \<^verbatim>\<open>"string"\<close>) holds a
    string or \<^verbatim>\<open>pd.NA\<close>;
  \<^item> the frame that \<^verbatim>\<open>load_data\<close> returns: \<^verbatim>\<open>datetime64[ns]\<close>, float and
    object-of-str columns, every cell present or missing.

  Timestamps are integers (nanoseconds since the epoch, as pandas stores them). Numbers
  are exact rationals: the rounding error of IEEE doubles is outside the model. Strings
  are \<open>char list\<close>; a \<open>char\<close> stands for a code point below 256. Columns beyond the
  eight required ones are carried by name only.
\<close>

datatype datecell = NaT | Ts int | DateText string

datatype numcell = NaN | Num rat | NumText string

record ('d, 's, 'n) row =
  date :: 'd
  category :: 's
  units :: 'n
  unit_price :: 'n
  region :: 's
  sales_channel :: 's
  customer_segment :: 's
  revenue :: 'n

type_synonym text_row = "(string, string, string) row"
type_synonym raw_row = "(datecell, string option, numcell) row"
type_synonym sales_row = "(int option, string option, rat option) row"

record 'r frame =
  columns :: "string list"
  rows :: "'r list"

text \<open>The dataclass \<^verbatim>\<open>DateRange\<close>; the field \<^verbatim>\<open>end\<close> is a keyword here.\<close>

record DateRange =
  dr_start :: int
  dr_end :: int

text \<open>The dataclass \<^verbatim>\<open>KPIs\<close>.\<close>

record KPIs =
  total_revenue :: int
  total_units :: int
  n_categories :: int

text \<open>
  What \<^verbatim>\<open>load_data\<close> can raise on a file it could read: the \<^verbatim>\<open>ValueError\<close>
  of \<^verbatim>\<open>pd.read_csv\<close> when the column named in \<^verbatim>\<open>parse_dates\<close> is absent, the
  \<^verbatim>\<open>ValueError\<close> of line 102 with the missing columns, and the \<^verbatim>\<open>ValueError\<close>
  of \<^verbatim>\<open>pd.to_datetime\<close> (line 117, default \<^verbatim>\<open>errors="raise"\<close>) with the text it
  could not parse.
\<close>

datatype error =
    ValueError_parse_dates
  | ValueError_missing_columns "string list"
  | ValueError_unparsed_date string

definition REQUIRED_COLUMNS :: "string list" where
  "REQUIRED_COLUMNS =
     [''date'', ''category'', ''units'', ''unit_price'', ''region'',
      ''sales_channel'', ''customer_segment'', ''revenue'']"

section \<open>Schema validator\<close>

text \<open>
  \<^verbatim>\<open>missing = [c for c in REQUIRED_COLUMNS if c not in df.columns]\<close>,
  \<^verbatim>\<open>return (len(missing) == 0, missing)\<close>.
\<close>

definition check_required_columns :: "'r frame \<Rightarrow> bool \<times> string list" where
  "check_required_columns df =
     (let missing = filter (\<lambda>c. c \<notin> set (columns df)) REQUIRED_COLUMNS
      in (length missing = 0, missing))"

section \<open>What the pandas calls need from outside\<close>

text \<open>
  The text formats of numbers and dates belong to pandas, not to this repository. They
  are parameters of the model: how \<^verbatim>\<open>pd.to_numeric\<close> and \<^verbatim>\<open>pd.to_datetime\<close>
  read a text (\<open>None\<close> when the text is no number, no date), and how
  \<^verbatim>\<open>DataFrame.to_csv\<close> writes a number and a timestamp. Nothing is assumed about
  them in the definitions; a theorem that needs a property of them states it. A date
  text with a UTC offset is read as its wall-clock time, which is what
  \<^verbatim>\<open>tz_localize(None)\<close> keeps.
\<close>

record pandas =
  num_of_text :: "string \<Rightarrow> rat option"
  date_of_text :: "string \<Rightarrow> int option"
  text_of_num :: "rat \<Rightarrow> string"
  text_of_date :: "int \<Rightarrow> string"

section \<open>Type normalizer\<close>

text \<open>\<^verbatim>\<open>pd.to_numeric(df[col], errors="coerce")\<close>, cell by cell.\<close>

definition to_numeric :: "pandas \<Rightarrow> numcell \<Rightarrow> rat option" where
  "to_numeric P c = (case c of NaN \<Rightarrow> None | Num x \<Rightarrow> Some x | NumText s \<Rightarrow> num_of_text P s)"

text \<open>
  \<^verbatim>\<open>str.isspace\<close> on the code points below 256: tab, line feed, vertical tab, form
  feed, carriage return, the four separators 28 to 31, space, next line (133) and
  no-break space (160).
\<close>

definition isspace :: "char \<Rightarrow> bool" where
  "isspace c = (of_char c \<in> {9, 10, 11, 12, 13, 28, 29, 30, 31, 32, 133, 160 :: nat})"

definition strip :: "string \<Rightarrow> string" where
  "strip s = rev (dropWhile isspace (rev (dropWhile isspace s)))"

text \<open>
  \<^verbatim>\<open>.astype(str)\<close> on a column of dtype \<^verbatim>\<open>"string"\<close>: a string stays, the missing
  value \<^verbatim>\<open>pd.NA\<close> becomes its printed form.
\<close>

definition astype_str :: "string option \<Rightarrow> string" where
  "astype_str c = (case c of None \<Rightarrow> ''<NA>'' | Some s \<Rightarrow> s)"

text \<open>
  \<^verbatim>\<open>for c in cat_cols: df[c] = df[c].astype(str).str.strip()\<close>. The result is an
  object column of Python strings; the cell type stays \<open>string option\<close> because
  \<^verbatim>\<open>compute_kpis\<close> and the charts still ask for missing values.
\<close>

definition normalize_categoricals ::
  "('d, string option, 'n) row frame \<Rightarrow> ('d, string option, 'n) row frame" where
  "normalize_categoricals df =
     df\<lparr>rows := map (\<lambda>r. r\<lparr>category := Some (strip (astype_str (category r))),
                             region := Some (strip (astype_str (region r))),
                             sales_channel := Some (strip (astype_str (sales_channel r))),
                             customer_segment := Some (strip (astype_str (customer_segment r)))\<rparr>)
                     (rows df)\<rparr>"

text \<open>
  \<^verbatim>\<open>pd.to_datetime(df["date"])\<close> with the default \<^verbatim>\<open>errors="raise"\<close>: a timestamp
  and \<^verbatim>\<open>NaT\<close> stay, a text is parsed, and the first text that is no date raises.
\<close>

definition to_datetime_cell :: "pandas \<Rightarrow> datecell \<Rightarrow> error + int option" where
  "to_datetime_cell P c =
     (case c of
        NaT \<Rightarrow> Inr None
      | Ts t \<Rightarrow> Inr (Some t)
      | DateText s \<Rightarrow> (case date_of_text P s of
                         None \<Rightarrow> Inl (ValueError_unparsed_date s)
                       | Some t \<Rightarrow> Inr (Some t)))"

fun to_datetime :: "pandas \<Rightarrow> datecell list \<Rightarrow> error + int option list" where
  "to_datetime P [] = Inr []"
| "to_datetime P (c # cs) =
     (case to_datetime_cell P c of
        Inl e \<Rightarrow> Inl e
      | Inr d \<Rightarrow> (case to_datetime P cs of Inl e \<Rightarrow> Inl e | Inr ds \<Rightarrow> Inr (d # ds)))"

text \<open>
  \<^verbatim>\<open>.dt.tz_localize(None)\<close> leaves a naive timestamp as it is;
  \<^verbatim>\<open>.dt.normalize()\<close> sets the time of day to midnight and keeps \<^verbatim>\<open>NaT\<close>.
\<close>

definition DAY_NS :: int where
  "DAY_NS = 86400 * 1000000000"

definition dt_normalize :: "int option \<Rightarrow> int option" where
  "dt_normalize d = map_option (\<lambda>t. t - t mod DAY_NS) d"

text \<open>
  Lines 108 to 117 of \<^verbatim>\<open>load_data\<close>, the normalization step: the three numeric
  columns, then the categorical columns, then the date column.
\<close>

definition numeric_columns ::
  "pandas \<Rightarrow> raw_row frame \<Rightarrow> (datecell, string option, rat option) row frame" where
  "numeric_columns P df =
     \<lparr>columns = columns df,
      rows = map (\<lambda>r. \<lparr>date = date r, category = category r,
                        units = to_numeric P (units r),
                        unit_price = to_numeric P (unit_price r),
                        region = region r, sales_channel = sales_channel r,
                        customer_segment = customer_segment r,
                        revenue = to_numeric P (revenue r)\<rparr>) (rows df)\<rparr>"

definition set_date :: "(datecell, string option, rat option) row \<Rightarrow> int option \<Rightarrow> sales_row" where
  "set_date r d =
     \<lparr>date = d, category = category r, units = units r, unit_price = unit_price r,
      region = region r, sales_channel = sales_channel r,
      customer_segment = customer_segment r, revenue = revenue r\<rparr>"

definition date_column ::
  "pandas \<Rightarrow> (datecell, string option, rat option) row frame \<Rightarrow> error + sales_row frame" where
  "date_column P df =
     (case to_datetime P (map date (rows df)) of
        Inl e \<Rightarrow> Inl e
      | Inr ds \<Rightarrow> Inr \<lparr>columns = columns df,
                       rows = map2 set_date (rows df) (map dt_normalize ds)\<rparr>)"

definition normalize :: "pandas \<Rightarrow> raw_row frame \<Rightarrow> error + sales_row frame" where
  "normalize P df = date_column P (normalize_categoricals (numeric_columns P df))"

text \<open>
  A normalized frame read again as an input of the normalization step: its cells are
  timestamps or \<^verbatim>\<open>NaT\<close>, numbers or \<^verbatim>\<open>NaN\<close>, and the categorical cells as they
  are.
\<close>

definition as_raw :: "sales_row frame \<Rightarrow> raw_row frame" where
  "as_raw df =
     \<lparr>columns = columns df,
      rows = map (\<lambda>r. \<lparr>date = (case date r of None \<Rightarrow> NaT | Some t \<Rightarrow> Ts t),
                        category = category r,
                        units = (case units r of None \<Rightarrow> NaN | Some x \<Rightarrow> Num x),
                        unit_price = (case unit_price r of None \<Rightarrow> NaN | Some x \<Rightarrow> Num x),
                        region = region r, sales_channel = sales_channel r,
                        customer_segment = customer_segment r,
                        revenue = (case revenue r of None \<Rightarrow> NaN | Some x \<Rightarrow> Num x)\<rparr>)
                 (rows df)\<rparr>"

section \<open>Reading and writing the CSV file\<close>

text \<open>
  The file is taken as already split into fields (the quoting is the csv module's and is
  the same in both directions): the header names and one record of field texts per line.

  \<^verbatim>\<open>pd.read_csv(path, parse_dates=["date"], dtype={...: "string"})\<close>:
  a field that is one of the default missing-value texts is missing; a categorical
  column keeps every other field as it is; a numeric column becomes numbers when all its
  fields are numbers and stays text otherwise; the date column becomes timestamps when
  all its fields are dates and stays text otherwise. A missing \<^verbatim>\<open>date\<close> column makes
  \<^verbatim>\<open>parse_dates\<close> raise.
\<close>

definition NA_VALUES :: "string list" where
  "NA_VALUES =
     ['''', ''#N/A'', ''#N/A N/A'', ''#NA'', ''-1.#IND'', ''-1.#QNAN'', ''-NaN'', ''-nan'',
      ''1.#IND'', ''1.#QNAN'', ''<NA>'', ''N/A'', ''NA'', ''NULL'', ''NaN'', ''None'',
      ''n/a'', ''nan'', ''null'']"

definition read_string :: "string \<Rightarrow> string option" where
  "read_string f = (if f \<in> set NA_VALUES then None else Some f)"

definition all_numbers :: "pandas \<Rightarrow> string list \<Rightarrow> bool" where
  "all_numbers P fs = list_all (\<lambda>f. f \<in> set NA_VALUES \<or> num_of_text P f \<noteq> None) fs"

definition read_number :: "pandas \<Rightarrow> bool \<Rightarrow> string \<Rightarrow> numcell" where
  "read_number P typed f =
     (if f \<in> set NA_VALUES then NaN
      else if typed then (case num_of_text P f of None \<Rightarrow> NumText f | Some x \<Rightarrow> Num x)
      else NumText f)"

definition all_dates :: "pandas \<Rightarrow> string list \<Rightarrow> bool" where
  "all_dates P fs = list_all (\<lambda>f. f \<in> set NA_VALUES \<or> date_of_text P f \<noteq> None) fs"

definition read_date :: "pandas \<Rightarrow> bool \<Rightarrow> string \<Rightarrow> datecell" where
  "read_date P typed f =
     (if f \<in> set NA_VALUES then NaT
      else if typed then (case date_of_text P f of None \<Rightarrow> DateText f | Some t \<Rightarrow> Ts t)
      else DateText f)"

definition read_csv :: "pandas \<Rightarrow> text_row frame \<Rightarrow> error + raw_row frame" where
  "read_csv P file =
     (if ''date'' \<notin> set (columns file) then Inl ValueError_parse_dates
      else
        let d = all_dates P (map date (rows file));
            u = all_numbers P (map units (rows file));
            p = all_numbers P (map unit_price (rows file));
            v = all_numbers P (map revenue (rows file))
        in Inr \<lparr>columns = columns file,
                rows = map (\<lambda>r. \<lparr>date = read_date P d (date r),
                                  category = read_string (category r),
                                  units = read_number P u (units r),
                                  unit_price = read_number P p (unit_price r),
                                  region = read_string (region r),
                                  sales_channel = read_string (sales_channel r),
                                  customer_segment = read_string (customer_segment r),
                                  revenue = read_number P v (revenue r)\<rparr>) (rows file)\<rparr>)"

text \<open>
  \<^verbatim>\<open>load_data\<close>: read the file, raise when a required column is missing, normalize.
\<close>

definition load_data :: "pandas \<Rightarrow> text_row frame \<Rightarrow> error + sales_row frame" where
  "load_data P file =
     (case read_csv P file of
        Inl e \<Rightarrow> Inl e
      | Inr df \<Rightarrow>
          (let (ok, missing) = check_required_columns df
           in if \<not> ok then Inl (ValueError_missing_columns missing)
              else normalize P df))"

text \<open>
  \<^verbatim>\<open>fdf.to_csv(index=False)\<close> (line 327): the header, and per row the printed cells, a
  missing cell as the empty field (\<^verbatim>\<open>na_rep=''\<close>).
\<close>

definition to_csv :: "pandas \<Rightarrow> sales_row frame \<Rightarrow> text_row frame" where
  "to_csv P df =
     \<lparr>columns = columns df,
      rows = map (\<lambda>r. \<lparr>date = (case date r of None \<Rightarrow> '''' | Some t \<Rightarrow> text_of_date P t),
                        category = (case category r of None \<Rightarrow> '''' | Some s \<Rightarrow> s),
                        units = (case units r of None \<Rightarrow> '''' | Some x \<Rightarrow> text_of_num P x),
                        unit_price = (case unit_price r of None \<Rightarrow> '''' | Some x \<Rightarrow> text_of_num P x),
                        region = (case region r of None \<Rightarrow> '''' | Some s \<Rightarrow> s),
                        sales_channel = (case sales_channel r of None \<Rightarrow> '''' | Some s \<Rightarrow> s),
                        customer_segment = (case customer_segment r of None \<Rightarrow> '''' | Some s \<Rightarrow> s),
                        revenue = (case revenue r of None \<Rightarrow> '''' | Some x \<Rightarrow> text_of_num P x)\<rparr>)
                 (rows df)\<rparr>"

section \<open>Range filter\<close>

text \<open>
  \<^verbatim>\<open>mask = (df["date"] >= dr.start) & (df["date"] <= dr.end)\<close>,
  \<^verbatim>\<open>return df.loc[mask].copy()\<close>. A comparison with \<^verbatim>\<open>NaT\<close> is false.
\<close>

definition ge_ts :: "int option \<Rightarrow> int \<Rightarrow> bool" where
  "ge_ts d s = (case d of None \<Rightarrow> False | Some t \<Rightarrow> t \<ge> s)"

definition le_ts :: "int option \<Rightarrow> int \<Rightarrow> bool" where
  "le_ts d e = (case d of None \<Rightarrow> False | Some t \<Rightarrow> t \<le> e)"

definition loc :: "'r list \<Rightarrow> bool list \<Rightarrow> 'r list" where
  "loc rs bmask = map fst (filter snd (zip rs bmask))"

definition apply_date_filter :: "sales_row frame \<Rightarrow> DateRange \<Rightarrow> sales_row frame" where
  "apply_date_filter df dr =
     (let bmask = map2 (\<and>) (map (\<lambda>d. ge_ts d (dr_start dr)) (map date (rows df)))
                          (map (\<lambda>d. le_ts d (dr_end dr)) (map date (rows df)))
      in df\<lparr>rows := loc (rows df) bmask\<rparr>)"

section \<open>Aggregator\<close>

text \<open>\<^verbatim>\<open>Series.dropna()\<close>.\<close>

fun dropna :: "'a option list \<Rightarrow> 'a list" where
  "dropna [] = []"
| "dropna (None # xs) = dropna xs"
| "dropna (Some x # xs) = x # dropna xs"

text \<open>Python's \<^verbatim>\<open>int(x)\<close> on a number: the fraction is cut off, towards zero.\<close>

definition py_int :: "rat \<Rightarrow> int" where
  "py_int x = (if 0 \<le> x then \<lfloor>x\<rfloor> else \<lceil>x\<rceil>)"

text \<open>
  \<^verbatim>\<open>compute_kpis\<close>: \<^verbatim>\<open>int(df["revenue"].dropna().sum())\<close>,
  \<^verbatim>\<open>int(df["units"].dropna().sum())\<close>, \<^verbatim>\<open>int(df["category"].dropna().nunique())\<close>.
\<close>

definition compute_kpis :: "sales_row frame \<Rightarrow> KPIs" where
  "compute_kpis df =
     \<lparr>total_revenue = py_int (sum_list (dropna (map revenue (rows df)))),
      total_units = py_int (sum_list (dropna (map units (rows df)))),
      n_categories = int (length (remdups (dropna (map category (rows df)))))\<rparr>"

text \<open>
  \<^verbatim>\<open>df.groupby("category", dropna=False, as_index=False)["revenue"].sum()\<close>: one group
  per distinct category; \<^verbatim>\<open>groupby\<close> sorts the group keys (its default
  \<^verbatim>\<open>sort=True\<close>), Python strings by code point, and puts the group of the missing
  key last; the sum of a group skips missing revenues.
\<close>

definition group_sum :: "sales_row list \<Rightarrow> (sales_row \<Rightarrow> 'k) \<Rightarrow> 'k \<Rightarrow> rat" where
  "group_sum rs key k = sum_list (dropna (map revenue (filter (\<lambda>r. key r = k) rs)))"

definition category_keys :: "sales_row list \<Rightarrow> string option list" where
  "category_keys rs =
     map Some (sort (remdups (dropna (map category rs))))
     @ (if None \<in> set (map category rs) then [None] else [])"

definition groupby_category :: "sales_row list \<Rightarrow> (string option \<times> rat) list" where
  "groupby_category rs = map (\<lambda>k. (k, group_sum rs category k)) (category_keys rs)"

text \<open>
  \<^verbatim>\<open>.sort_values("revenue", ascending=False)\<close>: pandas reverses the rows, sorts them
  in ascending order and reverses the result. The sort is taken to be stable: numpy's
  default sort is an insertion sort on arrays as short as the grouped frame of a chart.
\<close>

definition sort_values_desc :: "('k \<times> rat) list \<Rightarrow> ('k \<times> rat) list" where
  "sort_values_desc g = rev (sort_key snd (rev g))"

text \<open>
  \<^verbatim>\<open>chart_category_revenue\<close>: \<^verbatim>\<open>None\<close> for an empty frame, else the bar chart of
  the grouped frame \<^verbatim>\<open>g\<close>. The figure is drawn from \<^verbatim>\<open>g\<close> alone; the model
  returns \<^verbatim>\<open>g\<close>.
\<close>

definition revenue_by_category :: "sales_row frame \<Rightarrow> (string option \<times> rat) list" where
  "revenue_by_category df = sort_values_desc (groupby_category (rows df))"

definition chart_category_revenue :: "sales_row frame \<Rightarrow> (string option \<times> rat) list option" where
  "chart_category_revenue df =
     (if rows df = [] then None else Some (revenue_by_category df))"

text \<open>
  \<^verbatim>\<open>df.groupby("date", as_index=False)["revenue"].sum().sort_values("date")\<close>: the
  rows with a missing date are dropped (the default \<^verbatim>\<open>dropna=True\<close>), the keys are
  sorted.
\<close>

definition groupby_date :: "sales_row list \<Rightarrow> (int \<times> rat) list" where
  "groupby_date rs =
     map (\<lambda>k. (k, group_sum rs date (Some k))) (sort (remdups (dropna (map date rs))))"

definition revenue_by_date :: "sales_row frame \<Rightarrow> (int \<times> rat) list" where
  "revenue_by_date df = sort_key fst (groupby_date (rows df))"

definition chart_daily_revenue :: "sales_row frame \<Rightarrow> (int \<times> rat) list option" where
  "chart_daily_revenue df =
     (if rows df = [] then None else Some (revenue_by_date df))"

section \<open>Notions used in the statements\<close>



text \<open>
  What the normalization step establishes for a row: the four categorical cells are
  present and stripped, and the date is at midnight.
\<close>

definition stripped :: "string option \<Rightarrow> bool" where
  "stripped c = (case c of None \<Rightarrow> False | Some s \<Rightarrow> strip s = s)"

definition normalized_row :: "sales_row \<Rightarrow> bool" where
  "normalized_row r =
     (stripped (category r) \<and> stripped (region r) \<and> stripped (sales_channel r)
      \<and> stripped (customer_segment r) \<and> dt_normalize (date r) = date r)"






section \<open>The specification's words\<close>



section \<open>Example data\<close>

text \<open>
  An instance of the pandas parameters that knows the texts of the examples below: a few
  decimal numbers and the two dates of the specification's example, 2024-01-01 and
  2024-01-02 (days 19723 and 19724 after the epoch).
\<close>

definition example_pandas :: pandas where
  "example_pandas =
     \<lparr>num_of_text = map_of [(''1'', 1), (''2'', 2), (''3'', 3), (''50'', 50), (''100'', 100),
                            (''150'', 150), (''1.75'', 7 / 4)],
      date_of_text = map_of [(''2024-01-01'', 19723 * DAY_NS), (''2024-01-02'', 19724 * DAY_NS)],
      text_of_num = (\<lambda>x. if x = 1 then ''1'' else if x = 2 then ''2'' else if x = 3 then ''3''
                          else if x = 50 then ''50'' else if x = 100 then ''100''
                          else if x = 150 then ''150'' else ''1.75''),
      text_of_date = (\<lambda>t. if t = 19723 * DAY_NS then ''2024-01-01'' else ''2024-01-02'')\<rparr>"

definition sale :: "int option \<Rightarrow> string option \<Rightarrow> rat option \<Rightarrow> rat option \<Rightarrow> sales_row" where
  "sale d c u v =
     \<lparr>date = d, category = c, units = u, unit_price = Some 100, region = Some ''East'',
      sales_channel = Some ''Web'', customer_segment = Some ''Retail'', revenue = v\<rparr>"

definition sales :: "sales_row list \<Rightarrow> sales_row frame" where
  "sales rs = \<lparr>columns = REQUIRED_COLUMNS, rows = rs\<rparr>"

text \<open>The three example rows of the specification.\<close>

definition example_rows :: "sales_row list" where
  "example_rows =
     [sale (Some (19723 * DAY_NS)) (Some ''A'') (Some 2) (Some 100),
      sale (Some (19723 * DAY_NS)) (Some ''B'') (Some 1) (Some 50),
      sale (Some (19724 * DAY_NS)) (Some ''A'') (Some 3) (Some 150)]"

text \<open>A line of the CSV file with the given date, category, units and revenue fields.\<close>

definition line :: "string \<Rightarrow> string \<Rightarrow> string \<Rightarrow> string \<Rightarrow> text_row" where
  "line d c u v =
     \<lparr>date = d, category = c, units = u, unit_price = ''100'', region = ''East'',
      sales_channel = ''Web'', customer_segment = ''Retail'', revenue = v\<rparr>"

definition csv :: "text_row list \<Rightarrow> text_row frame" where
  "csv ls = \<lparr>columns = REQUIRED_COLUMNS, rows = ls\<rparr>"

definition raw_sale :: "datecell \<Rightarrow> string option \<Rightarrow> numcell \<Rightarrow> numcell \<Rightarrow> raw_row" where
  "raw_sale d c u v =
     \<lparr>date = d, category = c, units = u, unit_price = Num 100, region = Some ''East'',
      sales_channel = Some ''Web'', customer_segment = Some ''Retail'', revenue = v\<rparr>"

definition raw_sales :: "raw_row list \<Rightarrow> raw_row frame" where
  "raw_sales rs = \<lparr>columns = REQUIRED_COLUMNS, rows = rs\<rparr>"

section \<open>Properties\<close>

subsection \<open>Schema validator\<close>

lemma REQUIRED_COLUMNS_distinct: "distinct REQUIRED_COLUMNS"
  by (simp add: REQUIRED_COLUMNS_def)

text \<open>
  Claim C2. For every table the validator returns a pair (it is a total function and
  raises nothing); the flag is true exactly when every required column is among the
  table's columns; the reported list holds exactly the required names absent from the
  table, each once, in the order of the required-column list (it is a subsequence of
  that list, whatever the order of the table's columns); the flag is true exactly when
  that list is empty.
\<close>

theorem check_required_columns_correct:
  "fst (check_required_columns df) = (\<forall>c \<in> set REQUIRED_COLUMNS. c \<in> set (columns df))
   \<and> set (snd (check_required_columns df)) = set REQUIRED_COLUMNS - set (columns df)
   \<and> subseq (snd (check_required_columns df)) REQUIRED_COLUMNS
   \<and> distinct (snd (check_required_columns df))
   \<and> fst (check_required_columns df) = (snd (check_required_columns df) = [])"
proof -
  let ?m = "filter (\<lambda>c. c \<notin> set (columns df)) REQUIRED_COLUMNS"
  have r: "check_required_columns df = (?m = [], ?m)"
    by (simp add: check_required_columns_def Let_def)
  have "(?m = []) = (\<forall>c \<in> set REQUIRED_COLUMNS. c \<in> set (columns df))"
    by (simp add: filter_empty_conv)
  moreover have "set ?m = set REQUIRED_COLUMNS - set (columns df)"
    by auto
  moreover have "subseq ?m REQUIRED_COLUMNS"
    by simp
  moreover have "distinct ?m"
    using REQUIRED_COLUMNS_distinct by simp
  ultimately show ?thesis
    unfolding r by simp
qed

theorem check_required_columns_correct_witness:
  "check_required_columns \<lparr>columns = [''revenue'', ''extra'', ''date''], rows = ([] :: raw_row list)\<rparr>
     = (False, [''category'', ''units'', ''unit_price'', ''region'',
                ''sales_channel'', ''customer_segment''])
   \<and> subseq [''category'', ''units'', ''unit_price'', ''region'',
              ''sales_channel'', ''customer_segment''] REQUIRED_COLUMNS"
  using check_required_columns_correct
    [of "\<lparr>columns = [''revenue'', ''extra'', ''date''], rows = ([] :: raw_row list)\<rparr>"]
  by (simp add: check_required_columns_def REQUIRED_COLUMNS_def)

subsection \<open>Range filter\<close>

lemma loc_map2_conv:
  "loc rs (map2 (\<and>) (map p rs) (map q rs)) = filter (\<lambda>r. p r \<and> q r) rs"
  by (induction rs) (auto simp: loc_def)

lemma in_range_conv:
  "(ge_ts d s \<and> le_ts d e) = (\<exists>t. d = Some t \<and> s \<le> t \<and> t \<le> e)"
  by (cases d) (auto simp: ge_ts_def le_ts_def)

lemma rows_apply_date_filter:
  "rows (apply_date_filter df dr)
     = filter (\<lambda>r. \<exists>t. date r = Some t \<and> dr_start dr \<le> t \<and> t \<le> dr_end dr) (rows df)"
  by (simp add: apply_date_filter_def Let_def loc_map2_conv in_range_conv)

lemma columns_apply_date_filter: "columns (apply_date_filter df dr) = columns df"
  by (simp add: apply_date_filter_def Let_def)

text \<open>
  Claim C3. For every normalized table and every date range, the rows the range filter
  returns are exactly the rows of the input whose date is present and lies between start
  and end, both included, in the order (and with the multiplicity) they have in the
  input. In particular, when start is not after end, a row dated start or end is
  returned; a row dated one day before start or one day after end is not, and a row
  with a missing date is never returned.
\<close>

theorem apply_date_filter_correct:
  "rows (apply_date_filter df dr)
     = filter (\<lambda>r. \<exists>t. date r = Some t \<and> dr_start dr \<le> t \<and> t \<le> dr_end dr) (rows df)
   \<and> subseq (rows (apply_date_filter df dr)) (rows df)
   \<and> (\<forall>r \<in> set (rows df).
        (dr_start dr \<le> dr_end dr \<and> (date r = Some (dr_start dr) \<or> date r = Some (dr_end dr))
           \<longrightarrow> r \<in> set (rows (apply_date_filter df dr)))
      \<and> (date r = Some (dr_start dr - DAY_NS) \<or> date r = Some (dr_end dr + DAY_NS) \<or> date r = None
           \<longrightarrow> r \<notin> set (rows (apply_date_filter df dr))))"
  unfolding rows_apply_date_filter
  by (auto simp: DAY_NS_def)

theorem apply_date_filter_correct_witness:
  "rows (apply_date_filter
          (sales [sale (Some (19722 * DAY_NS)) (Some ''A'') (Some 1) (Some 1),
                  sale (Some (19724 * DAY_NS)) (Some ''B'') (Some 2) (Some 2),
                  sale None (Some ''C'') (Some 3) (Some 3),
                  sale (Some (19723 * DAY_NS)) (Some ''D'') (Some 1) (Some 50),
                  sale (Some (19725 * DAY_NS)) (Some ''E'') (Some 1) (Some 100)])
          \<lparr>dr_start = 19723 * DAY_NS, dr_end = 19724 * DAY_NS\<rparr>)
     = [sale (Some (19724 * DAY_NS)) (Some ''B'') (Some 2) (Some 2),
        sale (Some (19723 * DAY_NS)) (Some ''D'') (Some 1) (Some 50)]"
  using apply_date_filter_correct
    [of "sales [sale (Some (19722 * DAY_NS)) (Some ''A'') (Some 1) (Some 1),
                sale (Some (19724 * DAY_NS)) (Some ''B'') (Some 2) (Some 2),
                sale None (Some ''C'') (Some 3) (Some 3),
                sale (Some (19723 * DAY_NS)) (Some ''D'') (Some 1) (Some 50),
                sale (Some (19725 * DAY_NS)) (Some ''E'') (Some 1) (Some 100)]"
        "\<lparr>dr_start = 19723 * DAY_NS, dr_end = 19724 * DAY_NS\<rparr>"]
  by (simp add: sales_def sale_def DAY_NS_def)

text \<open>
  Claim C8. For every normalized table and every range whose start is after its end,
  the range filter returns (it is a total function) a table with no rows and the same
  columns: the bounds are used as given, not swapped.
\<close>

theorem apply_date_filter_reversed:
  "dr_start dr > dr_end dr \<Longrightarrow>
     rows (apply_date_filter df dr) = [] \<and> columns (apply_date_filter df dr) = columns df"
  unfolding rows_apply_date_filter columns_apply_date_filter
  by (auto simp: filter_empty_conv)

theorem apply_date_filter_reversed_witness:
  "rows (apply_date_filter (sales example_rows)
           \<lparr>dr_start = 19724 * DAY_NS, dr_end = 19723 * DAY_NS\<rparr>) = []
   \<and> rows (apply_date_filter (sales example_rows)
           \<lparr>dr_start = 19723 * DAY_NS, dr_end = 19724 * DAY_NS\<rparr>) = example_rows"
  using apply_date_filter_reversed
    [of "\<lparr>dr_start = 19724 * DAY_NS, dr_end = 19723 * DAY_NS\<rparr>" "sales example_rows"]
  by (simp add: rows_apply_date_filter sales_def example_rows_def sale_def DAY_NS_def)

subsection \<open>Type normalizer\<close>

lemma dropWhile_rstrip:
  "dropWhile P (rev (dropWhile P (rev (dropWhile P s)))) = rev (dropWhile P (rev (dropWhile P s)))"
proof -
  let ?a = "dropWhile P s"
  let ?b = "rev (dropWhile P (rev ?a))"
  have ab: "?a = ?b @ rev (takeWhile P (rev ?a))"
    by (metis rev_append rev_rev_ident takeWhile_dropWhile_id)
  show ?thesis
  proof (cases "?b = []")
    case True
    then show ?thesis by (simp only: dropWhile.simps)
  next
    case False
    then have "hd ?b = hd ?a" using ab by (metis hd_append2)
    moreover have "?a \<noteq> []"
    proof
      assume "?a = []"
      then have "?b = []" by (simp only: rev.simps dropWhile.simps)
      with False show False by simp
    qed
    then have "\<not> P (hd ?a)" by (rule hd_dropWhile)
    ultimately have "\<not> P (hd ?b)" by simp
    with False show ?thesis by (cases ?b) auto
  qed
qed

lemma stripped_iff: "stripped c = (\<exists>s. c = Some s \<and> strip s = s)"
  by (cases c) (simp_all add: stripped_def)

lemma strip_idem: "strip (strip s) = strip s"
  by (simp add: strip_def dropWhile_rstrip)


lemma dt_normalize_idem: "dt_normalize (dt_normalize d) = dt_normalize d"
  by (cases d) (simp_all add: dt_normalize_def DAY_NS_def)


lemma to_datetime_length: "to_datetime P cs = Inr ds \<Longrightarrow> length ds = length cs"
  by (induction cs arbitrary: ds) (auto split: sum.splits)

lemma to_datetime_typed:
  "to_datetime P (map (\<lambda>d. case d of None \<Rightarrow> NaT | Some t \<Rightarrow> Ts t) ds) = Inr ds"
  by (induction ds) (auto simp: to_datetime_cell_def split: option.splits)

lemma map2_map_map: "map2 f (map h xs) (map k xs) = map (\<lambda>x. f (h x) (k x)) xs"
  by (induction xs) auto

lemma in_set_map2D: "r \<in> set (map2 f xs ys) \<Longrightarrow> \<exists>x \<in> set xs. \<exists>y \<in> set ys. r = f x y"
  by (auto dest: set_zip_leftD set_zip_rightD)

lemma date_column_Inr:
  "date_column P df = Inr n \<Longrightarrow>
     \<exists>ds. to_datetime P (map date (rows df)) = Inr ds \<and> length ds = length (rows df)
        \<and> n = \<lparr>columns = columns df, rows = map2 set_date (rows df) (map dt_normalize ds)\<rparr>"
  by (auto simp: date_column_def split: sum.splits dest: to_datetime_length)

lemma normalize_normalized:
  assumes "normalize P df = Inr n" and "r \<in> set (rows n)"
  shows "normalized_row r"
proof -
  let ?mid = "normalize_categoricals (numeric_columns P df)"
  from assms(1) obtain ds where n: "rows n = map2 set_date (rows ?mid) (map dt_normalize ds)"
    unfolding normalize_def by (auto dest!: date_column_Inr)
  with assms(2) have "r \<in> set (map2 set_date (rows ?mid) (map dt_normalize ds))"
    by simp
  then obtain x y where x: "x \<in> set (rows ?mid)" and y: "y \<in> set (map dt_normalize ds)"
    and rxy: "r = set_date x y"
    by (blast dest: in_set_map2D)
  from y obtain d where "y = dt_normalize d" by auto
  with rxy have r: "r = set_date x (dt_normalize d)" by simp
  from x show ?thesis
    by (auto simp: r normalized_row_def stripped_iff set_date_def normalize_categoricals_def strip_idem dt_normalize_idem)
qed

lemma renormalize:
  assumes "\<forall>r \<in> set (rows n). normalized_row r"
  shows "normalize P (as_raw n) = Inr n"
proof -
  let ?g = "\<lambda>d. case d of None \<Rightarrow> NaT | Some t \<Rightarrow> Ts t"
  let ?h = "\<lambda>r. \<lparr>date = ?g (date r), category = category r, units = units r,
                  unit_price = unit_price r, region = region r, sales_channel = sales_channel r,
                  customer_segment = customer_segment r, revenue = revenue r\<rparr>"
  have mid: "normalize_categoricals (numeric_columns P (as_raw n))
               = \<lparr>columns = columns n, rows = map ?h (rows n)\<rparr>"
    using assms
    by (auto simp: normalize_categoricals_def numeric_columns_def as_raw_def to_numeric_def
        normalized_row_def stripped_iff astype_str_def split: option.splits)
  have dates: "map date (map ?h (rows n)) = map ?g (map date (rows n))"
    by simp
  have again: "map2 set_date (map ?h (rows n)) (map dt_normalize (map date (rows n))) = rows n"
    using assms
    by (simp add: map2_map_map set_date_def normalized_row_def map_idI)
  show ?thesis
    unfolding normalize_def mid date_column_def
    by (simp only: frame.simps dates to_datetime_typed sum.case again) simp
qed




text \<open>
  Claim C4. Normalization is idempotent: for every table, normalizing the table that
  the normalization step returned returns that same table; where the step raises, there
  is no table to normalize again and the error is all there is on both sides.
\<close>

theorem normalize_idempotent:
  "(case normalize P df of Inl e \<Rightarrow> Inl e | Inr n \<Rightarrow> normalize P (as_raw n)) = normalize P df"
  by (auto split: sum.splits intro!: renormalize dest: normalize_normalized)

theorem normalize_idempotent_witness:
  "normalize example_pandas
     (raw_sales [raw_sale (Ts (19723 * DAY_NS + 3600)) (Some '' A '') (NumText ''2'') (NumText ''x''),
                 raw_sale (DateText ''2024-01-02'') None NaN (Num 50)])
     = Inr (sales [sale (Some (19723 * DAY_NS)) (Some ''A'') (Some 2) None,
                   sale (Some (19724 * DAY_NS)) (Some ''<NA>'') None (Some 50)])
   \<and> normalize example_pandas
       (as_raw (sales [sale (Some (19723 * DAY_NS)) (Some ''A'') (Some 2) None,
                       sale (Some (19724 * DAY_NS)) (Some ''<NA>'') None (Some 50)]))
     = Inr (sales [sale (Some (19723 * DAY_NS)) (Some ''A'') (Some 2) None,
                   sale (Some (19724 * DAY_NS)) (Some ''<NA>'') None (Some 50)])"
proof -
  have h: "normalize example_pandas
     (raw_sales [raw_sale (Ts (19723 * DAY_NS + 3600)) (Some '' A '') (NumText ''2'') (NumText ''x''),
                 raw_sale (DateText ''2024-01-02'') None NaN (Num 50)])
     = Inr (sales [sale (Some (19723 * DAY_NS)) (Some ''A'') (Some 2) None,
                   sale (Some (19724 * DAY_NS)) (Some ''<NA>'') None (Some 50)])"
    by (simp add: normalize_def date_column_def normalize_categoricals_def numeric_columns_def
        to_numeric_def to_datetime_cell_def dt_normalize_def set_date_def astype_str_def
        strip_def isspace_def example_pandas_def raw_sales_def raw_sale_def sales_def sale_def
        DAY_NS_def)
  show ?thesis
    using h normalize_idempotent
      [of example_pandas
          "raw_sales [raw_sale (Ts (19723 * DAY_NS + 3600)) (Some '' A '') (NumText ''2'') (NumText ''x''),
                      raw_sale (DateText ''2024-01-02'') None NaN (Num 50)]"]
    by simp
qed



subsection \<open>Aggregator\<close>


















text \<open>
  Claim C6, as amended. On a table without rows every aggregate is defined and none
  raises: the KPIs are all zero; \<^verbatim>\<open>chart_category_revenue\<close> and
  \<^verbatim>\<open>chart_daily_revenue\<close> return \<^verbatim>\<open>None\<close>, no chart, rather than an empty
  sequence; the grouped frames behind their guard would be empty.
\<close>

theorem aggregates_empty:
  "compute_kpis \<lparr>columns = cs, rows = []\<rparr> = \<lparr>total_revenue = 0, total_units = 0, n_categories = 0\<rparr>
   \<and> chart_category_revenue \<lparr>columns = cs, rows = []\<rparr> = None
   \<and> chart_daily_revenue \<lparr>columns = cs, rows = []\<rparr> = None
   \<and> revenue_by_category \<lparr>columns = cs, rows = []\<rparr> = []
   \<and> revenue_by_date \<lparr>columns = cs, rows = []\<rparr> = []"
  by (simp add: compute_kpis_def py_int_def chart_category_revenue_def chart_daily_revenue_def
      revenue_by_category_def revenue_by_date_def sort_values_desc_def groupby_category_def
      category_keys_def groupby_date_def)

text \<open>
  The claim as stated fails: on the empty table the two chart functions do not return an
  empty sequence.
\<close>

theorem aggregates_empty_counterexample:
  "chart_category_revenue (sales []) \<noteq> Some [] \<and> chart_daily_revenue (sales []) \<noteq> Some []"
  by (simp add: chart_category_revenue_def chart_daily_revenue_def sales_def)




subsection \<open>Loading\<close>

lemma isl_to_datetime:
  "isl (to_datetime P cs) = (\<exists>c \<in> set cs. isl (to_datetime_cell P c))"
  by (induction cs) (auto split: sum.splits)

lemma isl_to_datetime_cell:
  "isl (to_datetime_cell P c) = (\<exists>s. c = DateText s \<and> date_of_text P s = None)"
  by (cases c) (auto simp: to_datetime_cell_def split: option.splits)

lemma isl_date_column: "isl (date_column P df) = isl (to_datetime P (map date (rows df)))"
  by (simp add: date_column_def split: sum.splits)

lemma read_date_unparsed:
  "(\<exists>s. read_date P typed f = DateText s \<and> date_of_text P s = None)
     = (f \<notin> set NA_VALUES \<and> date_of_text P f = None)"
  by (auto simp: read_date_def split: option.splits)

lemma load_data_succeeds_iff:
  "(\<not> isl (load_data P file))
     = (set REQUIRED_COLUMNS \<subseteq> set (columns file)
        \<and> (\<forall>r \<in> set (rows file). date r \<in> set NA_VALUES \<or> date_of_text P (date r) \<noteq> None))"
proof (cases "set REQUIRED_COLUMNS \<subseteq> set (columns file)")
  case False
  then show ?thesis
    by (auto simp: load_data_def read_csv_def check_required_columns_def Let_def filter_empty_conv
        split: sum.splits)
next
  case True
  then have d: "''date'' \<in> set (columns file)"
    by (auto simp: REQUIRED_COLUMNS_def)
  from True have ok: "filter (\<lambda>c. c \<notin> set (columns file)) REQUIRED_COLUMNS = []"
    by (auto simp: filter_empty_conv)
  show ?thesis
    using True d ok
    by (auto simp: load_data_def read_csv_def check_required_columns_def Let_def normalize_def
        isl_date_column isl_to_datetime isl_to_datetime_cell normalize_categoricals_def
        numeric_columns_def comp_def read_date_unparsed)
qed

text \<open>
  Claim C1. The numeric half holds: a line whose revenue is the text \<^verbatim>\<open>abc\<close> loads,
  the row is kept and its revenue is missing. The date half does not: a line whose date
  is the text \<^verbatim>\<open>not-a-date\<close> makes \<^verbatim>\<open>load_data\<close> raise the \<^verbatim>\<open>ValueError\<close> of
  \<^verbatim>\<open>pd.to_datetime\<close>, which line 117 calls without \<^verbatim>\<open>errors="coerce"\<close>; no table
  is returned. (By \<open>load_data_succeeds_iff\<close> this is so for every file and every date
  text that pandas cannot parse.)
\<close>

theorem load_data_unparsed_date_raises:
  "load_data example_pandas (csv [line ''2024-01-01'' ''A'' ''2'' ''abc''])
     = Inr (sales [sale (Some (19723 * DAY_NS)) (Some ''A'') (Some 2) None])
   \<and> load_data example_pandas
       (csv [line ''2024-01-01'' ''A'' ''2'' ''100'', line ''not-a-date'' ''B'' ''1'' ''50''])
     = Inl (ValueError_unparsed_date ''not-a-date'')"
  by (simp add: load_data_def read_csv_def check_required_columns_def REQUIRED_COLUMNS_def
      all_dates_def all_numbers_def read_date_def read_number_def read_string_def NA_VALUES_def
      normalize_def date_column_def normalize_categoricals_def numeric_columns_def
      to_numeric_def to_datetime_cell_def dt_normalize_def set_date_def astype_str_def
      strip_def isspace_def example_pandas_def to_csv_def csv_def line_def sales_def sale_def
      DAY_NS_def Let_def)

subsection \<open>Export and reload\<close>

















end
